theory Spec2Isabelle
  imports Complex_Main
begin

section \<open>The data model of DataValidator.py\<close>

text \<open>
  A cell of the table. The tables the program validates come from \<^verbatim>\<open>pd.read_csv\<close>, so a
  cell is a scalar: an integer, a float, a string, a boolean, or the missing marker
  (\<^verbatim>\<open>NaN\<close>; \<^verbatim>\<open>isna\<close> is true exactly on it). A float is modelled by the real it denotes:
  the program only compares floats (\<^verbatim>\<open><\<close>, \<^verbatim>\<open>>\<close>), and comparison of finite floats is exact.
  An integer cell is an exact integer (\<^verbatim>\<open>int64\<close>); where pandas converts it to \<^verbatim>\<open>float64\<close> the
  model rounds it (\<open>float64_of_int\<close> below).
\<close>

datatype cell = Missing | IntV int | FloatV real | StrV string | BoolV bool

text \<open>
  A \<^verbatim>\<open>DataFrame\<close>: the column names in order and the rows in order, each row the list of
  its cells in column order. The row labels are the positions \<open>0, 1, 2, ...\<close>
  (the \<^verbatim>\<open>RangeIndex\<close> that \<^verbatim>\<open>read_csv\<close> gives), and the column names are distinct
  (\<^verbatim>\<open>read_csv\<close> renames a repeated header); a name is looked up at its first position.
\<close>

record dataframe =
  columns :: "string list"
  rows :: "cell list list"

text \<open>
  A \<^verbatim>\<open>Series\<close> is a list of (row label, value) pairs, so that \<^verbatim>\<open>dropna\<close> keeps the labels
  of the rows it keeps, as pandas does. A boolean mask is a series of booleans.
\<close>

type_synonym 'a series = "(nat \<times> 'a) list"

text \<open>The \<^verbatim>\<open>value\<close> field of an issue: \<^verbatim>\<open>None\<close>, a raw cell, or the dict of a composite key.\<close>

datatype issue_value = VNone | VCell cell | VDict "(string \<times> cell) list"

text \<open>
  The \<^verbatim>\<open>issue\<close> field is a message string in the source; five messages are fixed and six
  are f-strings over a type name, a bound or an allowed list. One constructor per message:
  \<^item> \<open>MissingRequiredColumn\<close>: \<^verbatim>\<open>"Missing required column"\<close>
  \<^item> \<open>MissingValue\<close>: \<^verbatim>\<open>"Missing value"\<close>
  \<^item> \<open>MissingKeyColumn\<close>: \<^verbatim>\<open>"Missing key column for duplicate check"\<close>
  \<^item> \<open>DuplicateKey\<close>: \<^verbatim>\<open>"Duplicate key"\<close>
  \<^item> \<open>DuplicateRow\<close>: \<^verbatim>\<open>"Duplicate row (entire row)"\<close>
  \<^item> \<open>UnknownExpectedType t\<close>: \<^verbatim>\<open>f"Unknown expected type '{type_name}'"\<close>
  \<^item> \<open>TypeMismatch t\<close>: \<^verbatim>\<open>f"Type mismatch (expected {type_name})"\<close>
  \<^item> \<open>ValueBelowMin m\<close>: \<^verbatim>\<open>f"Value below min ({min_val})"\<close>
  \<^item> \<open>ValueAboveMax m\<close>: \<^verbatim>\<open>f"Value above max ({max_val})"\<close>
  \<^item> \<open>ValueNotAllowed a\<close>: \<^verbatim>\<open>f"Value not allowed (allowed={allowed})"\<close>
  \<^item> \<open>InvalidEmail\<close>: \<^verbatim>\<open>"Invalid email (missing '@')"\<close>
\<close>

datatype issue_kind =
    MissingRequiredColumn
  | MissingValue
  | MissingKeyColumn
  | DuplicateKey
  | DuplicateRow
  | UnknownExpectedType string
  | TypeMismatch string
  | ValueBelowMin real
  | ValueAboveMax real
  | ValueNotAllowed "cell list"
  | InvalidEmail

text \<open>The dataclass \<^verbatim>\<open>Issue\<close>; \<open>row_index = None\<close> is a dataset-level issue.\<close>

record Issue =
  row_index :: "nat option"
  column :: "string option"
  issue :: issue_kind
  issue_value :: issue_value

text \<open>
  The keyword arguments of \<^verbatim>\<open>validate_dataframe\<close>. A Python dict is an association list in
  insertion order (\<^verbatim>\<open>.items()\<close> iterates in that order); its keys are distinct.
\<close>

record config =
  required_cols :: "string list"
  expected_types :: "(string \<times> string) list"
  ranges :: "(string \<times> (real option \<times> real option)) list"
  allowed_values :: "(string \<times> cell list) list"
  unique_key_cols :: "string list option"
  email_cols :: "string list option"

text \<open>The dict \<^verbatim>\<open>summary\<close>, with its four keys.\<close>

record summary =
  summary_rows :: nat
  summary_cols :: nat
  total_issues :: nat
  issue_types :: "issue_kind \<rightharpoonup> nat"

text \<open>
  What the program takes from pandas and Python for text: how \<^verbatim>\<open>pd.to_numeric\<close> reads a
  string (\<open>None\<close>: the \<^verbatim>\<open>NaN\<close> that \<^verbatim>\<open>errors="coerce"\<close> gives), which entries of a series
  \<^verbatim>\<open>pd.to_datetime(..., errors="coerce")\<close> turns into \<^verbatim>\<open>NaT\<close> (it infers one format for the
  whole series, so this is a function of the list of values), and \<^verbatim>\<open>str\<close> of a scalar that
  is not a string. They are parameters of the model.
\<close>

record pandas =
  str_to_numeric :: "string \<Rightarrow> real option"
  datetime_isna :: "cell list \<Rightarrow> bool list"
  scalar_str :: "cell \<Rightarrow> string"

section \<open>The pandas operations the program calls\<close>

definition isna :: "cell \<Rightarrow> bool" where
  "isna v = (v = Missing)"

text \<open>\<^verbatim>\<open>df.loc[idx]\<close> read through the column names; a row shorter than the header reads as missing.\<close>

definition row_get :: "string list \<Rightarrow> cell list \<Rightarrow> string \<Rightarrow> cell" where
  "row_get cols r c = (case map_of (zip cols r) c of Some v \<Rightarrow> v | None \<Rightarrow> Missing)"

text \<open>\<^verbatim>\<open>df[c]\<close>, for a column name of the frame.\<close>

definition get_col :: "dataframe \<Rightarrow> string \<Rightarrow> cell series" where
  "get_col df c = enumerate 0 (map (\<lambda>r. row_get (columns df) r c) (rows df))"

text \<open>\<^verbatim>\<open>df.at[idx, c]\<close>, for a label of the frame's index.\<close>

definition at_cell :: "dataframe \<Rightarrow> nat \<Rightarrow> string \<Rightarrow> cell" where
  "at_cell df idx c = row_get (columns df) (rows df ! idx) c"

definition dropna :: "cell series \<Rightarrow> cell series" where
  "dropna s = filter (\<lambda>(i, v). \<not> isna v) s"

text \<open>\<^verbatim>\<open>s.index[mask]\<close> and \<^verbatim>\<open>bad[bad].index\<close>: the labels where the mask is true, in order.\<close>

definition true_index :: "bool series \<Rightarrow> nat list" where
  "true_index m = map fst (filter snd m)"

definition map_series :: "('a \<Rightarrow> 'b) \<Rightarrow> 'a series \<Rightarrow> 'b series" where
  "map_series f s = map (\<lambda>(i, v). (i, f v)) s"

text \<open>
  A value of a numeric series: an \<^verbatim>\<open>int64\<close> (a boolean counts as the integer 0 or 1) or a
  \<^verbatim>\<open>float64\<close>.
\<close>

datatype number = NInt int | NFloat real

text \<open>
  \<^verbatim>\<open>pd.to_numeric(..., errors="coerce")\<close> on one value: numbers are kept as they are, a
  string is parsed to a float, and the missing marker stays \<^verbatim>\<open>NaN\<close> (\<open>None\<close>).
\<close>

fun to_numeric :: "pandas \<Rightarrow> cell \<Rightarrow> number option" where
  "to_numeric pd Missing = None"
| "to_numeric pd (IntV i) = Some (NInt i)"
| "to_numeric pd (FloatV x) = Some (NFloat x)"
| "to_numeric pd (BoolV b) = Some (NInt (if b then 1 else 0))"
| "to_numeric pd (StrV s) = map_option NFloat (str_to_numeric pd s)"

text \<open>The number of binary digits of a natural number (Python's \<^verbatim>\<open>int.bit_length\<close>).\<close>

fun bit_length :: "nat \<Rightarrow> nat" where
  "bit_length n = (if n = 0 then 0 else Suc (bit_length (n div 2)))"

declare bit_length.simps [simp del]

text \<open>
  The conversion of an \<^verbatim>\<open>int64\<close> to \<^verbatim>\<open>float64\<close>: the nearest number with a significand of
  53 binary digits, a tie going to the even significand. The result is an integer again.
  Below \<open>2^53\<close> in absolute value the conversion is exact.
\<close>

definition float64_of_int :: "int \<Rightarrow> int" where
  "float64_of_int i =
     (let a = nat \<bar>i\<bar> in
      if a < 2 ^ 53 then i
      else
        let ulp = 2 ^ (bit_length a - 53); q = a div ulp; r = a mod ulp;
            q' = (if ulp < 2 * r \<or> (2 * r = ulp \<and> odd q) then q + 1 else q)
        in sgn i * int (q' * ulp))"

text \<open>
  The operand of a comparison with a float bound (\<^verbatim>\<open>numeric < min_val\<close>, \<^verbatim>\<open>numeric > max_val\<close>,
  the bounds being Python floats): numpy compares in \<^verbatim>\<open>float64\<close>, converting an integer first.
\<close>

fun as_float64 :: "number \<Rightarrow> real" where
  "as_float64 (NInt i) = of_int (float64_of_int i)"
| "as_float64 (NFloat x) = x"

text \<open>\<^verbatim>\<open>.astype(str)\<close> on one value.\<close>

fun astype_str :: "pandas \<Rightarrow> cell \<Rightarrow> string" where
  "astype_str pd (StrV s) = s"
| "astype_str pd v = scalar_str pd v"

text \<open>\<^verbatim>\<open>s.str.contains("@")\<close> on one string.\<close>

definition contains_at :: "string \<Rightarrow> bool" where
  "contains_at s = (CHR ''@'' \<in> set s)"

text \<open>
  \<^verbatim>\<open>isinstance(x, (list, dict, set, tuple))\<close>: no cell of the model is a container.
\<close>

definition is_container :: "cell \<Rightarrow> bool" where
  "is_container v = False"

text \<open>The values of a row in the columns \<open>subs\<close>: what \<^verbatim>\<open>duplicated\<close> compares.\<close>

definition row_key :: "dataframe \<Rightarrow> string list \<Rightarrow> cell list \<Rightarrow> cell list" where
  "row_key df subs r = map (row_get (columns df) r) subs"

text \<open>
  \<^verbatim>\<open>df.duplicated(subset=subset, keep=False)\<close>: a row is marked when another row has equal
  values in the columns of \<open>subs\<close>, the missing marker counting as equal to itself.
  pandas returns an empty series for an empty frame (no row or no column) before it looks
  at anything else; the properties of the duplicate check below are stated for frames with
  at least one column, as every frame read from a CSV file is.
\<close>

definition duplicated :: "dataframe \<Rightarrow> string list \<Rightarrow> bool series" where
  "duplicated df subs =
     (if rows df = [] \<or> columns df = [] then []
      else let keys = enumerate 0 (map (row_key df subs) (rows df))
           in map (\<lambda>(i, k). (i, list_ex (\<lambda>(j, k'). j \<noteq> i \<and> k' = k) keys)) keys)"

text \<open>\<^verbatim>\<open>",".join(key_cols)\<close>.\<close>

fun join :: "string \<Rightarrow> string list \<Rightarrow> string" where
  "join sep [] = []"
| "join sep [x] = x"
| "join sep (x # y # ys) = x @ sep @ join sep (y # ys)"

text \<open>
  The keys of a dict built from a list of keys: each key once, at its first position.
\<close>

fun dict_keys :: "string list \<Rightarrow> string list" where
  "dict_keys [] = []"
| "dict_keys (k # ks) = k # filter (\<lambda>k'. k' \<noteq> k) (dict_keys ks)"

text \<open>
  The dtype \<^verbatim>\<open>read_csv\<close> gives a column: \<^verbatim>\<open>int64\<close> when every cell is an integer,
  \<^verbatim>\<open>float64\<close> when every cell is a number or missing, \<^verbatim>\<open>bool\<close> when every cell is a boolean,
  and \<^verbatim>\<open>object\<close> otherwise.
\<close>

datatype dtype = Int64 | Float64 | BoolType | ObjectType

definition col_dtype :: "cell list \<Rightarrow> dtype" where
  "col_dtype vs =
     (if list_all (\<lambda>v. case v of IntV _ \<Rightarrow> True | _ \<Rightarrow> False) vs then Int64
      else if list_all (\<lambda>v. case v of IntV _ \<Rightarrow> True | FloatV _ \<Rightarrow> True | Missing \<Rightarrow> True
                                   | _ \<Rightarrow> False) vs then Float64
      else if list_all (\<lambda>v. case v of BoolV _ \<Rightarrow> True | _ \<Rightarrow> False) vs then BoolType
      else ObjectType)"

text \<open>
  \<^verbatim>\<open>df.loc[idx, key_cols]\<close> takes the row \<^verbatim>\<open>idx\<close> first, as one series over all columns of
  the frame with their common dtype, and the key columns from it. The common dtype is
  \<^verbatim>\<open>float64\<close> when every column is \<^verbatim>\<open>int64\<close> or \<^verbatim>\<open>float64\<close> and one at least is
  \<^verbatim>\<open>float64\<close>: then the integers of the row are converted. In every other case the cells
  are kept as they are.
\<close>

definition row_is_float64 :: "dataframe \<Rightarrow> bool" where
  "row_is_float64 df =
     (let dtypes = map (\<lambda>c. col_dtype (map snd (get_col df c))) (columns df)
      in list_all (\<lambda>d. d = Int64 \<or> d = Float64) dtypes \<and> list_ex (\<lambda>d. d = Float64) dtypes)"

fun float64_cell :: "cell \<Rightarrow> cell" where
  "float64_cell (IntV i) = FloatV (of_int (float64_of_int i))"
| "float64_cell v = v"

definition loc_row :: "dataframe \<Rightarrow> nat \<Rightarrow> string \<Rightarrow> cell" where
  "loc_row df idx c =
     (if row_is_float64 df then float64_cell (at_cell df idx c) else at_cell df idx c)"

text \<open>\<^verbatim>\<open>df.loc[idx, key_cols].to_dict()\<close>.\<close>

definition loc_to_dict :: "dataframe \<Rightarrow> nat \<Rightarrow> string list \<Rightarrow> (string \<times> cell) list" where
  "loc_to_dict df idx key_cols = map (\<lambda>c. (c, loc_row df idx c)) (dict_keys key_cols)"

section \<open>validate\_dataframe\<close>

definition add_issue ::
  "Issue list \<Rightarrow> nat option \<Rightarrow> string option \<Rightarrow> issue_kind \<Rightarrow> issue_value \<Rightarrow> Issue list" where
  "add_issue issues r c k v =
     issues @ [\<lparr>row_index = r, column = c, issue = k, issue_value = v\<rparr>]"

text \<open>Python truthiness of an optional list: \<^verbatim>\<open>None\<close> and \<^verbatim>\<open>[]\<close> are false.\<close>

fun truthy :: "'a list option \<Rightarrow> bool" where
  "truthy None = False"
| "truthy (Some xs) = (xs \<noteq> [])"

text \<open>Lines 33-35: a dataset-level issue for each required column that is absent.\<close>

definition check_required_cols :: "dataframe \<Rightarrow> config \<Rightarrow> Issue list \<Rightarrow> Issue list" where
  "check_required_cols df cfg issues =
     (let missing_required_cols = filter (\<lambda>c. c \<notin> set (columns df)) (required_cols cfg)
      in fold (\<lambda>c acc. add_issue acc None (Some c) MissingRequiredColumn VNone)
           missing_required_cols issues)"

text \<open>Lines 37-43: the missing cells of each required column that is present.\<close>

definition check_missing_values :: "dataframe \<Rightarrow> config \<Rightarrow> Issue list \<Rightarrow> Issue list" where
  "check_missing_values df cfg issues =
     (let present_required_cols = filter (\<lambda>c. c \<in> set (columns df)) (required_cols cfg)
      in fold (\<lambda>c acc.
            let missing_mask = map_series isna (get_col df c)
            in fold (\<lambda>idx acc'. add_issue acc' (Some idx) (Some c) MissingValue VNone)
                 (true_index missing_mask) acc)
           present_required_cols issues)"

text \<open>Lines 46-59: the duplicate check, keyed or over whole rows.\<close>

definition check_duplicates :: "dataframe \<Rightarrow> config \<Rightarrow> Issue list \<Rightarrow> Issue list" where
  "check_duplicates df cfg issues =
     (if truthy (unique_key_cols cfg) then
        (let ukc = the (unique_key_cols cfg);
             key_cols = filter (\<lambda>c. c \<in> set (columns df)) ukc;
             issues1 = fold (\<lambda>c acc.
                 if c \<notin> set (columns df)
                 then add_issue acc None (Some c) MissingKeyColumn VNone else acc)
               ukc issues
         in if key_cols \<noteq> [] then
              (let dup_mask = duplicated df key_cols
               in fold (\<lambda>idx acc. add_issue acc (Some idx) (Some (join '','' key_cols))
                          DuplicateKey (VDict (loc_to_dict df idx key_cols)))
                    (true_index dup_mask) issues1)
            else issues1)
      else
        (let dup_mask = duplicated df (columns df)
         in fold (\<lambda>idx acc. add_issue acc (Some idx) None DuplicateRow VNone)
              (true_index dup_mask) issues))"

text \<open>
  Lines 66-77: the mask \<^verbatim>\<open>bad\<close> of a type check over the non-missing values, or \<open>None\<close>
  in the \<^verbatim>\<open>else\<close> branch of an unknown type name.
\<close>

definition type_bad :: "pandas \<Rightarrow> string \<Rightarrow> cell series \<Rightarrow> bool series option" where
  "type_bad pd type_name non_missing =
     (if type_name \<in> {''int'', ''float''} then
        Some (map_series (\<lambda>v. to_numeric pd v = None) non_missing)
      else if type_name = ''datetime'' then
        Some (zip (map fst non_missing) (datetime_isna pd (map snd non_missing)))
      else if type_name = ''string'' then
        Some (map_series is_container non_missing)
      else None)"

text \<open>Lines 62-80, one iteration of the loop over \<^verbatim>\<open>expected_types.items()\<close>.\<close>

definition check_type :: "pandas \<Rightarrow> dataframe \<Rightarrow> string \<times> string \<Rightarrow> Issue list \<Rightarrow> Issue list" where
  "check_type pd df entry issues =
     (let col = fst entry; type_name = snd entry in
      if col \<notin> set (columns df) then issues
      else case type_bad pd type_name (dropna (get_col df col)) of
        None \<Rightarrow> add_issue issues None (Some col) (UnknownExpectedType type_name) VNone
      | Some bad \<Rightarrow>
          fold (\<lambda>idx acc. add_issue acc (Some idx) (Some col) (TypeMismatch type_name)
                  (VCell (at_cell df idx col)))
            (true_index bad) issues)"

definition check_types :: "pandas \<Rightarrow> dataframe \<Rightarrow> config \<Rightarrow> Issue list \<Rightarrow> Issue list" where
  "check_types pd df cfg issues = fold (check_type pd df) (expected_types cfg) issues"

text \<open>
  Lines 83-97, one iteration of the loop over \<^verbatim>\<open>ranges.items()\<close>. A comparison with
  \<^verbatim>\<open>NaN\<close> is false (and \<^verbatim>\<open>fillna(False)\<close> keeps it so); a number is compared with the float
  bound in \<^verbatim>\<open>float64\<close>.
\<close>

definition check_range ::
  "pandas \<Rightarrow> dataframe \<Rightarrow> string \<times> (real option \<times> real option) \<Rightarrow> Issue list \<Rightarrow> Issue list" where
  "check_range pd df entry issues =
     (let col = fst entry; min_val = fst (snd entry); max_val = snd (snd entry) in
      if col \<notin> set (columns df) then issues
      else
        let numeric = map_series (to_numeric pd) (get_col df col);
            issues1 = (case min_val of
                None \<Rightarrow> issues
              | Some mn \<Rightarrow>
                  let bad = map_series (\<lambda>n. case n of None \<Rightarrow> False
                                               | Some x \<Rightarrow> as_float64 x < mn) numeric
                  in fold (\<lambda>idx acc. add_issue acc (Some idx) (Some col) (ValueBelowMin mn)
                             (VCell (at_cell df idx col)))
                       (true_index bad) issues)
        in (case max_val of
              None \<Rightarrow> issues1
            | Some mx \<Rightarrow>
                let bad = map_series (\<lambda>n. case n of None \<Rightarrow> False
                                             | Some x \<Rightarrow> as_float64 x > mx) numeric
                in fold (\<lambda>idx acc. add_issue acc (Some idx) (Some col) (ValueAboveMax mx)
                           (VCell (at_cell df idx col)))
                     (true_index bad) issues1))"

definition check_ranges :: "pandas \<Rightarrow> dataframe \<Rightarrow> config \<Rightarrow> Issue list \<Rightarrow> Issue list" where
  "check_ranges pd df cfg issues = fold (check_range pd df) (ranges cfg) issues"

text \<open>Lines 100-105, one iteration of the loop over \<^verbatim>\<open>allowed_values.items()\<close>.\<close>

definition check_allowed :: "dataframe \<Rightarrow> string \<times> cell list \<Rightarrow> Issue list \<Rightarrow> Issue list" where
  "check_allowed df entry issues =
     (let col = fst entry; allowed = snd entry in
      if col \<notin> set (columns df) then issues
      else
        let bad = map_series (\<lambda>v. v \<notin> set allowed \<and> \<not> isna v) (get_col df col)
        in fold (\<lambda>idx acc. add_issue acc (Some idx) (Some col) (ValueNotAllowed allowed)
                   (VCell (at_cell df idx col)))
             (true_index bad) issues)"

definition check_allowed_values :: "dataframe \<Rightarrow> config \<Rightarrow> Issue list \<Rightarrow> Issue list" where
  "check_allowed_values df cfg issues = fold (check_allowed df) (allowed_values cfg) issues"

text \<open>Lines 108-115: the email check.\<close>

definition check_email :: "pandas \<Rightarrow> dataframe \<Rightarrow> string \<Rightarrow> Issue list \<Rightarrow> Issue list" where
  "check_email pd df col issues =
     (if col \<notin> set (columns df) then issues
      else
        let s = map_series (astype_str pd) (dropna (get_col df col));
            bad_mask = map_series (\<lambda>t. \<not> contains_at t) s
        in fold (\<lambda>idx acc. add_issue acc (Some idx) (Some col) InvalidEmail
                   (VCell (at_cell df idx col)))
             (true_index bad_mask) issues)"

definition check_emails :: "pandas \<Rightarrow> dataframe \<Rightarrow> config \<Rightarrow> Issue list \<Rightarrow> Issue list" where
  "check_emails pd df cfg issues =
     (if truthy (email_cols cfg) then fold (check_email pd df) (the (email_cols cfg)) issues
      else issues)"

text \<open>
  Line 120: \<^verbatim>\<open>pd.Series([i.issue for i in issues]).value_counts().to_dict()\<close>, the number
  of occurrences of each message that occurs.
\<close>

definition value_counts :: "issue_kind list \<Rightarrow> (issue_kind \<rightharpoonup> nat)" where
  "value_counts ks = (\<lambda>k. if k \<in> set ks then Some (count_list ks k) else None)"

definition make_summary :: "dataframe \<Rightarrow> Issue list \<Rightarrow> summary" where
  "make_summary df issues =
     \<lparr>summary_rows = length (rows df),
      summary_cols = length (columns df),
      total_issues = length issues,
      issue_types = (if issues \<noteq> [] then value_counts (map issue issues) else Map.empty)\<rparr>"

text \<open>The issues of a run: the seven checks in the order of the source, on one accumulator.\<close>

definition validate_issues :: "pandas \<Rightarrow> dataframe \<Rightarrow> config \<Rightarrow> Issue list" where
  "validate_issues pd df cfg =
     check_emails pd df cfg
       (check_allowed_values df cfg
         (check_ranges pd df cfg
           (check_types pd df cfg
             (check_duplicates df cfg
               (check_missing_values df cfg
                 (check_required_cols df cfg []))))))"

definition validate_dataframe :: "pandas \<Rightarrow> dataframe \<Rightarrow> config \<Rightarrow> Issue list \<times> summary" where
  "validate_dataframe pd df cfg =
     (let issues = validate_issues pd df cfg in (issues, make_summary df issues))"

section \<open>issues\_to\_df\<close>

text \<open>The four values of a record of the export, one constructor per field of \<^verbatim>\<open>Issue\<close>.\<close>

datatype export_cell =
    ERowIndex "nat option"
  | EColumn "string option"
  | EIssue issue_kind
  | EValue issue_value

text \<open>The dict the list comprehension builds for one issue, keys in the order written.\<close>

definition issue_record :: "Issue \<Rightarrow> (string \<times> export_cell) list" where
  "issue_record i =
     [(''row_index'', ERowIndex (row_index i)),
      (''column'', EColumn (column i)),
      (''issue'', EIssue (issue i)),
      (''value'', EValue (issue_value i))]"

record export_table =
  table_columns :: "string list"
  table_rows :: "export_cell option list list"

text \<open>
  \<^verbatim>\<open>pd.DataFrame(list of dicts)\<close>: the columns are the keys of the dicts in order of first
  appearance, and each dict is one row, in order (a key a dict lacks reads as missing).
  An empty list gives a frame with no column and no row.
\<close>

definition DataFrame_of_records :: "(string \<times> export_cell) list list \<Rightarrow> export_table" where
  "DataFrame_of_records recs =
     (let cols = dict_keys (concat (map (map fst) recs))
      in \<lparr>table_columns = cols,
          table_rows = map (\<lambda>r. map (map_of r) cols) recs\<rparr>)"

definition issues_to_df :: "Issue list \<Rightarrow> export_table" where
  "issues_to_df issues = DataFrame_of_records (map issue_record issues)"

section \<open>Notions used to state the properties\<close>


text \<open>
  An instance of the parameters, to evaluate the examples: a string parses as a number when
  it is a non-empty string of decimal digits, no value parses as a date, and the text of a
  scalar that is not a string is left empty. The examples below use the first only.
\<close>

definition parse_digits :: "string \<Rightarrow> real option" where
  "parse_digits s =
     (if s \<noteq> [] \<and> list_all (\<lambda>ch. ch \<in> set ''0123456789'') s
      then Some (real (foldl (\<lambda>a ch. 10 * a + (of_char ch - 48)) 0 s)) else None)"

definition example_pd :: pandas where
  "example_pd =
     \<lparr>str_to_numeric = parse_digits, datetime_isna = map (\<lambda>v. True), scalar_str = (\<lambda>v. [])\<rparr>"

text \<open>The rule configuration with every rule empty or absent.\<close>

definition empty_config :: config where
  "empty_config =
     \<lparr>required_cols = [], expected_types = [], ranges = [], allowed_values = [],
      unique_key_cols = None, email_cols = None\<rparr>"

section \<open>The accumulator: every check appends to the issues it is given\<close>

lemma fold_add_issue:
  "fold (\<lambda>x acc. add_issue acc (r x) (c x) (k x) (v x)) xs acc =
     acc @ map (\<lambda>x. \<lparr>row_index = r x, column = c x, issue = k x, issue_value = v x\<rparr>) xs"
  by (induction xs arbitrary: acc) (simp_all add: add_issue_def)

lemma fold_append_concat:
  assumes "\<And>x acc. f x acc = acc @ f x []"
  shows "fold f xs acc = acc @ concat (map (\<lambda>x. f x []) xs)"
proof (induction xs arbitrary: acc)
  case Nil
  show ?case by simp
next
  case (Cons x xs)
  have "fold f (x # xs) acc = fold f xs (f x acc)" by simp
  also have "\<dots> = f x acc @ concat (map (\<lambda>x. f x []) xs)" by (rule Cons.IH)
  also have "f x acc = acc @ f x []" by (rule assms)
  finally show ?case by simp
qed

lemma fold_append_nil:
  assumes "\<And>x acc. f x acc = acc @ f x []"
  shows "fold f xs acc = acc @ fold f xs []"
proof -
  have "fold f xs acc = acc @ concat (map (\<lambda>x. f x []) xs)"
    using assms by (rule fold_append_concat)
  moreover have "fold f xs [] = [] @ concat (map (\<lambda>x. f x []) xs)"
    using assms by (rule fold_append_concat)
  ultimately show ?thesis by simp
qed

lemma check_required_cols_append:
  "check_required_cols df cfg acc = acc @ check_required_cols df cfg []"
  by (simp add: check_required_cols_def fold_add_issue)

lemma check_missing_values_append:
  "check_missing_values df cfg acc = acc @ check_missing_values df cfg []"
  unfolding check_missing_values_def Let_def
  by (rule fold_append_nil) (simp add: fold_add_issue)

lemma fold_cond_add_issue:
  "fold (\<lambda>x acc. if p x then add_issue acc (r x) (c x) (k x) (v x) else acc) xs acc =
     acc @ map (\<lambda>x. \<lparr>row_index = r x, column = c x, issue = k x, issue_value = v x\<rparr>) (filter p xs)"
  by (induction xs arbitrary: acc) (simp_all add: add_issue_def)

lemma check_duplicates_append:
  "check_duplicates df cfg acc = acc @ check_duplicates df cfg []"
  by (simp add: check_duplicates_def Let_def fold_add_issue fold_cond_add_issue)

lemma check_type_append:
  "check_type pd df e acc = acc @ check_type pd df e []"
  by (simp add: check_type_def Let_def fold_add_issue split: option.splits)
     (simp add: add_issue_def)

lemma check_types_append:
  "check_types pd df cfg acc = acc @ check_types pd df cfg []"
  unfolding check_types_def by (rule fold_append_nil) (rule check_type_append)

lemma check_range_append:
  "check_range pd df e acc = acc @ check_range pd df e []"
  by (simp add: check_range_def Let_def fold_add_issue split: option.splits)

lemma check_ranges_append:
  "check_ranges pd df cfg acc = acc @ check_ranges pd df cfg []"
  unfolding check_ranges_def by (rule fold_append_nil) (rule check_range_append)

lemma check_allowed_append:
  "check_allowed df e acc = acc @ check_allowed df e []"
  by (simp add: check_allowed_def Let_def fold_add_issue)

lemma check_allowed_values_append:
  "check_allowed_values df cfg acc = acc @ check_allowed_values df cfg []"
  unfolding check_allowed_values_def by (rule fold_append_nil) (rule check_allowed_append)

lemma check_email_append:
  "check_email pd df c acc = acc @ check_email pd df c []"
  by (simp add: check_email_def Let_def fold_add_issue)

lemma check_emails_append:
  "check_emails pd df cfg acc = acc @ check_emails pd df cfg []"
proof (cases "truthy (email_cols cfg)")
  case True
  have "fold (check_email pd df) (the (email_cols cfg)) acc =
        acc @ fold (check_email pd df) (the (email_cols cfg)) []"
    by (rule fold_append_nil) (rule check_email_append)
  with True show ?thesis by (simp add: check_emails_def)
next
  case False
  then show ?thesis by (simp add: check_emails_def)
qed

lemma validate_issues_stages:
  "validate_issues pd df cfg =
     check_required_cols df cfg [] @ check_missing_values df cfg [] @
     check_duplicates df cfg [] @ check_types pd df cfg [] @ check_ranges pd df cfg [] @
     check_allowed_values df cfg [] @ check_emails pd df cfg []"
  unfolding validate_issues_def
  by (subst check_emails_append, subst check_allowed_values_append, subst check_ranges_append,
      subst check_types_append, subst check_duplicates_append, subst check_missing_values_append)
     simp

section \<open>The conversion of integers to float64\<close>





section \<open>Series and masks over the row labels\<close>

lemma enumerate_map_nth:
  "enumerate 0 (map f xs) = map (\<lambda>i. (i, f (xs ! i))) [0..<length xs]"
  by (rule nth_equalityI) (simp_all add: nth_enumerate_eq)

lemma get_col_nth:
  "get_col df c = map (\<lambda>i. (i, at_cell df i c)) [0..<length (rows df)]"
  by (simp add: get_col_def at_cell_def enumerate_map_nth)

lemma true_index_map_series:
  "true_index (map_series P s) = map fst (filter (\<lambda>(i, v). P v) s)"
  by (induction s) (auto simp: true_index_def map_series_def)

lemma true_index_col:
  "true_index (map_series P (get_col df c)) =
     filter (\<lambda>i. P (at_cell df i c)) [0..<length (rows df)]"
  by (simp add: true_index_map_series get_col_nth filter_map comp_def)

lemma dropna_col:
  "dropna (get_col df c) =
     map (\<lambda>i. (i, at_cell df i c)) (filter (\<lambda>i. at_cell df i c \<noteq> Missing) [0..<length (rows df)])"
  by (simp add: dropna_def get_col_nth filter_map comp_def isna_def)

lemma true_index_dropna_col:
  "true_index (map_series P (dropna (get_col df c))) =
     filter (\<lambda>i. at_cell df i c \<noteq> Missing \<and> P (at_cell df i c)) [0..<length (rows df)]"
  by (simp add: true_index_map_series dropna_col filter_map comp_def conj_commute)

lemma map_series_comp:
  "map_series f (map_series g s) = map_series (\<lambda>v. f (g v)) s"
  by (simp add: map_series_def comp_def case_prod_unfold)

lemma true_index_duplicated:
  "true_index (duplicated df subs) =
     (if rows df = [] \<or> columns df = [] then []
      else filter (\<lambda>i. \<exists>j < length (rows df). j \<noteq> i \<and>
                      row_key df subs (rows df ! j) = row_key df subs (rows df ! i))
             [0..<length (rows df)])"
proof (cases "rows df = [] \<or> columns df = []")
  case True
  then show ?thesis by (simp add: duplicated_def true_index_def)
next
  case False
  have ex: "list_ex (\<lambda>(j, k'). j \<noteq> i \<and> k' = k)
              (map (\<lambda>i. (i, row_key df subs (rows df ! i))) [0..<length (rows df)]) \<longleftrightarrow>
            (\<exists>j < length (rows df). j \<noteq> i \<and> row_key df subs (rows df ! j) = k)" for i k
    by (auto simp: list_ex_iff)
  from False show ?thesis
    by (simp add: duplicated_def Let_def true_index_def enumerate_map_nth filter_map comp_def ex)
qed

section \<open>What each check emits, from an empty accumulator\<close>

lemma check_required_cols_nil:
  "check_required_cols df cfg [] =
     map (\<lambda>c. \<lparr>row_index = None, column = Some c, issue = MissingRequiredColumn, issue_value = VNone\<rparr>)
       (filter (\<lambda>c. c \<notin> set (columns df)) (required_cols cfg))"
  by (simp add: check_required_cols_def fold_add_issue)

lemma check_missing_values_nil:
  "check_missing_values df cfg [] =
     concat (map (\<lambda>c. map (\<lambda>idx. \<lparr>row_index = Some idx, column = Some c, issue = MissingValue,
                                    issue_value = VNone\<rparr>)
                    (filter (\<lambda>i. at_cell df i c = Missing) [0..<length (rows df)]))
       (filter (\<lambda>c. c \<in> set (columns df)) (required_cols cfg)))"
proof -
  have "fold (\<lambda>c acc. acc @ g c) cs [] = concat (map g cs)" for g :: "string \<Rightarrow> Issue list" and cs
    using fold_append_concat [of "\<lambda>c acc. acc @ g c" cs "[]"] by simp
  then show ?thesis
    by (simp add: check_missing_values_def fold_add_issue true_index_col isna_def)
qed

lemma check_duplicates_nil:
  "check_duplicates df cfg [] =
     (if truthy (unique_key_cols cfg) then
        map (\<lambda>c. \<lparr>row_index = None, column = Some c, issue = MissingKeyColumn, issue_value = VNone\<rparr>)
          (filter (\<lambda>c. c \<notin> set (columns df)) (the (unique_key_cols cfg))) @
        (let key_cols = filter (\<lambda>c. c \<in> set (columns df)) (the (unique_key_cols cfg))
         in if key_cols \<noteq> [] then
              map (\<lambda>idx. \<lparr>row_index = Some idx, column = Some (join '','' key_cols),
                          issue = DuplicateKey, issue_value = VDict (loc_to_dict df idx key_cols)\<rparr>)
                (true_index (duplicated df key_cols))
            else [])
      else
        map (\<lambda>idx. \<lparr>row_index = Some idx, column = None, issue = DuplicateRow, issue_value = VNone\<rparr>)
          (true_index (duplicated df (columns df))))"
  by (simp add: check_duplicates_def Let_def fold_add_issue fold_cond_add_issue)

lemma check_type_nil:
  "check_type pd df (col, type_name) [] =
     (if col \<notin> set (columns df) then []
      else case type_bad pd type_name (dropna (get_col df col)) of
        None \<Rightarrow> [\<lparr>row_index = None, column = Some col, issue = UnknownExpectedType type_name,
                  issue_value = VNone\<rparr>]
      | Some bad \<Rightarrow>
          map (\<lambda>idx. \<lparr>row_index = Some idx, column = Some col, issue = TypeMismatch type_name,
                      issue_value = VCell (at_cell df idx col)\<rparr>) (true_index bad))"
  by (simp add: check_type_def fold_add_issue split: option.splits) (simp add: add_issue_def)

lemma check_types_nil:
  "check_types pd df cfg [] = concat (map (\<lambda>e. check_type pd df e []) (expected_types cfg))"
  using fold_append_concat [of "check_type pd df" "expected_types cfg" "[]", OF check_type_append]
  by (simp add: check_types_def)

lemma check_range_nil:
  "check_range pd df (col, min_val, max_val) [] =
     (if col \<notin> set (columns df) then []
      else
        (case min_val of None \<Rightarrow> []
         | Some mn \<Rightarrow>
             map (\<lambda>idx. \<lparr>row_index = Some idx, column = Some col, issue = ValueBelowMin mn,
                         issue_value = VCell (at_cell df idx col)\<rparr>)
               (filter (\<lambda>i. case to_numeric pd (at_cell df i col) of None \<Rightarrow> False
                            | Some x \<Rightarrow> as_float64 x < mn)
                  [0..<length (rows df)])) @
        (case max_val of None \<Rightarrow> []
         | Some mx \<Rightarrow>
             map (\<lambda>idx. \<lparr>row_index = Some idx, column = Some col, issue = ValueAboveMax mx,
                         issue_value = VCell (at_cell df idx col)\<rparr>)
               (filter (\<lambda>i. case to_numeric pd (at_cell df i col) of None \<Rightarrow> False
                            | Some x \<Rightarrow> mx < as_float64 x)
                  [0..<length (rows df)])))"
  by (simp add: check_range_def Let_def fold_add_issue map_series_comp true_index_col
           split: option.splits)

lemma check_ranges_nil:
  "check_ranges pd df cfg [] = concat (map (\<lambda>e. check_range pd df e []) (ranges cfg))"
  using fold_append_concat [of "check_range pd df" "ranges cfg" "[]", OF check_range_append]
  by (simp add: check_ranges_def)

lemma check_allowed_nil:
  "check_allowed df (col, allowed) [] =
     (if col \<notin> set (columns df) then []
      else map (\<lambda>idx. \<lparr>row_index = Some idx, column = Some col, issue = ValueNotAllowed allowed,
                       issue_value = VCell (at_cell df idx col)\<rparr>)
             (filter (\<lambda>i. at_cell df i col \<notin> set allowed \<and> at_cell df i col \<noteq> Missing)
                [0..<length (rows df)]))"
  by (simp add: check_allowed_def Let_def fold_add_issue true_index_col isna_def)

lemma check_allowed_values_nil:
  "check_allowed_values df cfg [] = concat (map (\<lambda>e. check_allowed df e []) (allowed_values cfg))"
  using fold_append_concat [of "check_allowed df" "allowed_values cfg" "[]", OF check_allowed_append]
  by (simp add: check_allowed_values_def)

lemma check_email_nil:
  "check_email pd df col [] =
     (if col \<notin> set (columns df) then []
      else map (\<lambda>idx. \<lparr>row_index = Some idx, column = Some col, issue = InvalidEmail,
                       issue_value = VCell (at_cell df idx col)\<rparr>)
             (filter (\<lambda>i. at_cell df i col \<noteq> Missing \<and>
                          \<not> contains_at (astype_str pd (at_cell df i col)))
                [0..<length (rows df)]))"
  by (simp add: check_email_def Let_def fold_add_issue map_series_comp true_index_dropna_col)

lemma check_emails_nil:
  "check_emails pd df cfg [] =
     (if truthy (email_cols cfg)
      then concat (map (\<lambda>c. check_email pd df c []) (the (email_cols cfg))) else [])"
  using fold_append_concat [of "check_email pd df" "the (email_cols cfg)" "[]", OF check_email_append]
  by (simp add: check_emails_def)

section \<open>The shape of the issues of each check\<close>

lemma in_required_stage:
  assumes "x \<in> set (check_required_cols df cfg [])"
  shows "issue x = MissingRequiredColumn \<and> row_index x = None \<and> issue_value x = VNone"
  using assms by (auto simp: check_required_cols_nil)

lemma in_missing_stage:
  assumes "x \<in> set (check_missing_values df cfg [])"
  shows "issue x = MissingValue \<and> (\<exists>c \<in> set (columns df). column x = Some c)"
  using assms by (auto simp: check_missing_values_nil)

lemma in_duplicates_stage:
  assumes "x \<in> set (check_duplicates df cfg [])"
  shows "(issue x = MissingKeyColumn \<and> row_index x = None \<and> issue_value x = VNone) \<or>
         issue x = DuplicateKey \<or> (issue x = DuplicateRow \<and> column x = None)"
  using assms by (auto simp: check_duplicates_nil Let_def split: if_splits)

lemma in_type_check:
  assumes "x \<in> set (check_type pd df e [])"
  shows "column x = Some (fst e) \<and> fst e \<in> set (columns df) \<and>
         (issue x = UnknownExpectedType (snd e) \<or> issue x = TypeMismatch (snd e))"
  using assms by (cases e) (auto simp: check_type_nil split: if_splits option.splits)

lemma in_types_stage:
  assumes "x \<in> set (check_types pd df cfg [])"
  shows "\<exists>e \<in> set (expected_types cfg). column x = Some (fst e) \<and> fst e \<in> set (columns df) \<and>
         (issue x = UnknownExpectedType (snd e) \<or> issue x = TypeMismatch (snd e))"
  using assms by (auto simp: check_types_nil dest: in_type_check)

lemma in_range_check:
  assumes "x \<in> set (check_range pd df e [])"
  shows "column x = Some (fst e) \<and> fst e \<in> set (columns df) \<and>
         (\<exists>i v. row_index x = Some i \<and> i < length (rows df) \<and>
                to_numeric pd (at_cell df i (fst e)) = Some v \<and>
                ((\<exists>m. issue x = ValueBelowMin m \<and> as_float64 v < m) \<or>
                 (\<exists>m. issue x = ValueAboveMax m \<and> m < as_float64 v)))"
  using assms
  by (cases e) (auto simp: check_range_nil split: if_splits option.splits)

lemma in_ranges_stage:
  assumes "x \<in> set (check_ranges pd df cfg [])"
  shows "\<exists>c \<in> set (columns df). column x = Some c \<and>
         (\<exists>i v. row_index x = Some i \<and> i < length (rows df) \<and>
                to_numeric pd (at_cell df i c) = Some v \<and>
                ((\<exists>m. issue x = ValueBelowMin m \<and> as_float64 v < m) \<or>
                 (\<exists>m. issue x = ValueAboveMax m \<and> m < as_float64 v)))"
proof -
  from assms obtain e where "x \<in> set (check_range pd df e [])"
    by (auto simp: check_ranges_nil)
  from in_range_check [OF this] show ?thesis by blast
qed

lemma in_allowed_stage:
  assumes "x \<in> set (check_allowed_values df cfg [])"
  shows "(\<exists>c \<in> set (columns df). column x = Some c) \<and> (\<exists>a. issue x = ValueNotAllowed a)"
proof -
  from assms obtain e where "x \<in> set (check_allowed df e [])"
    by (auto simp: check_allowed_values_nil)
  then show ?thesis
    by (cases e) (auto simp: check_allowed_nil split: if_splits)
qed

lemma in_emails_stage:
  assumes "x \<in> set (check_emails pd df cfg [])"
  shows "(\<exists>c \<in> set (columns df). column x = Some c) \<and> issue x = InvalidEmail"
proof -
  from assms obtain c where "x \<in> set (check_email pd df c [])"
    by (auto simp: check_emails_nil split: if_splits)
  then show ?thesis
    by (auto simp: check_email_nil split: if_splits)
qed

lemma filter_nil_stage:
  assumes "\<And>x. x \<in> set xs \<Longrightarrow> \<not> P x"
  shows "filter P xs = []"
  using assms by (simp add: filter_empty_conv)

lemma filter_id_stage:
  assumes "\<And>x. x \<in> set xs \<Longrightarrow> P x"
  shows "filter P xs = xs"
  using assms by (simp add: filter_id_conv)

lemma fst_validate_dataframe:
  "fst (validate_dataframe pd df cfg) = validate_issues pd df cfg"
  by (simp add: validate_dataframe_def Let_def)

lemma in_validate_issues:
  "x \<in> set (validate_issues pd df cfg) \<longleftrightarrow>
     x \<in> set (check_required_cols df cfg []) \<or> x \<in> set (check_missing_values df cfg []) \<or>
     x \<in> set (check_duplicates df cfg []) \<or> x \<in> set (check_types pd df cfg []) \<or>
     x \<in> set (check_ranges pd df cfg []) \<or> x \<in> set (check_allowed_values df cfg []) \<or>
     x \<in> set (check_emails pd df cfg [])"
  by (auto simp: validate_issues_stages)

lemma filter_validate_issues:
  "filter P (validate_issues pd df cfg) =
     filter P (check_required_cols df cfg []) @ filter P (check_missing_values df cfg []) @
     filter P (check_duplicates df cfg []) @ filter P (check_types pd df cfg []) @
     filter P (check_ranges pd df cfg []) @ filter P (check_allowed_values df cfg []) @
     filter P (check_emails pd df cfg [])"
  by (simp add: validate_issues_stages)

lemmas check_defs =
  validate_dataframe_def validate_issues_def make_summary_def
  check_required_cols_def check_missing_values_def check_duplicates_def
  check_types_def check_type_def type_bad_def check_ranges_def check_range_def
  check_allowed_values_def check_allowed_def check_emails_def check_email_def
  add_issue_def get_col_def at_cell_def row_get_def dropna_def isna_def true_index_def
  map_series_def duplicated_def row_key_def loc_to_dict_def loc_row_def row_is_float64_def
  col_dtype_def float64_of_int_def contains_at_def is_container_def
  empty_config_def example_pd_def parse_digits_def Let_def

section \<open>The summary\<close>

text \<open>
  Claim C1. For every dataset and rule configuration, the summary returned by
  \<^verbatim>\<open>validate_dataframe\<close> has \<open>total_issues\<close> equal to the number of Issue records in the
  issue list returned alongside it.
\<close>

theorem total_issues_eq_length:
  "total_issues (snd (validate_dataframe pd df cfg)) = length (fst (validate_dataframe pd df cfg))"
  by (simp add: validate_dataframe_def make_summary_def Let_def)

section \<open>The duplicate check\<close>

text \<open>
  Claim C10. If \<open>unique_key_cols\<close> is supplied and non-empty but none of the listed columns
  exists in the dataset, the run emits one dataset-level missing-key-column issue per listed
  column, in order, and no duplicate-key and no whole-row duplicate issue: the whole-row
  fallback is not used.
\<close>

theorem no_duplicate_check_without_present_key:
  assumes "unique_key_cols cfg = Some ks" and "ks \<noteq> []"
    and "set ks \<inter> set (columns df) = {}"
  shows "filter (\<lambda>x. issue x = MissingKeyColumn) (fst (validate_dataframe pd df cfg)) =
           map (\<lambda>c. \<lparr>row_index = None, column = Some c, issue = MissingKeyColumn,
                      issue_value = VNone\<rparr>) ks \<and>
         (\<forall>x \<in> set (fst (validate_dataframe pd df cfg)).
            issue x \<noteq> DuplicateKey \<and> issue x \<noteq> DuplicateRow)"
proof -
  from assms(3) have absent: "filter (\<lambda>c. c \<notin> set (columns df)) ks = ks"
    and present: "filter (\<lambda>c. c \<in> set (columns df)) ks = []"
    by (auto simp: filter_id_conv filter_empty_conv)
  have dup: "check_duplicates df cfg [] =
      map (\<lambda>c. \<lparr>row_index = None, column = Some c, issue = MissingKeyColumn,
                 issue_value = VNone\<rparr>) ks"
    using assms(1,2) by (simp add: check_duplicates_nil absent present)
  have f1: "filter (\<lambda>x. issue x = MissingKeyColumn) (check_required_cols df cfg []) = []"
    by (rule filter_nil_stage) (auto dest: in_required_stage)
  have f2: "filter (\<lambda>x. issue x = MissingKeyColumn) (check_missing_values df cfg []) = []"
    by (rule filter_nil_stage) (auto dest: in_missing_stage)
  have f3: "filter (\<lambda>x. issue x = MissingKeyColumn) (check_duplicates df cfg []) =
      check_duplicates df cfg []"
    by (rule filter_id_stage) (auto simp: dup)
  have f4: "filter (\<lambda>x. issue x = MissingKeyColumn) (check_types pd df cfg []) = []"
    by (rule filter_nil_stage) (auto dest: in_types_stage)
  have f5: "filter (\<lambda>x. issue x = MissingKeyColumn) (check_ranges pd df cfg []) = []"
    by (rule filter_nil_stage) (auto dest: in_ranges_stage)
  have f6: "filter (\<lambda>x. issue x = MissingKeyColumn) (check_allowed_values df cfg []) = []"
    by (rule filter_nil_stage) (auto dest: in_allowed_stage)
  have f7: "filter (\<lambda>x. issue x = MissingKeyColumn) (check_emails pd df cfg []) = []"
    by (rule filter_nil_stage) (auto dest: in_emails_stage)
  have A: "filter (\<lambda>x. issue x = MissingKeyColumn) (fst (validate_dataframe pd df cfg)) =
           map (\<lambda>c. \<lparr>row_index = None, column = Some c, issue = MissingKeyColumn,
                      issue_value = VNone\<rparr>) ks"
    by (simp add: validate_dataframe_def Let_def validate_issues_stages f1 f2 f3 f4 f5 f6 f7)
       (simp add: dup)
  have B: "issue x \<noteq> DuplicateKey \<and> issue x \<noteq> DuplicateRow"
    if "x \<in> set (fst (validate_dataframe pd df cfg))" for x
  proof -
    from that consider
        "x \<in> set (check_required_cols df cfg [])" | "x \<in> set (check_missing_values df cfg [])"
      | "x \<in> set (check_duplicates df cfg [])" | "x \<in> set (check_types pd df cfg [])"
      | "x \<in> set (check_ranges pd df cfg [])" | "x \<in> set (check_allowed_values df cfg [])"
      | "x \<in> set (check_emails pd df cfg [])"
      by (auto simp: validate_dataframe_def Let_def validate_issues_stages)
    then show ?thesis
    proof cases
      case 1 then show ?thesis by (auto dest: in_required_stage)
    next
      case 2 then show ?thesis by (auto dest: in_missing_stage)
    next
      case 3 then show ?thesis by (auto simp: dup)
    next
      case 4 then show ?thesis by (auto dest: in_types_stage)
    next
      case 5 then show ?thesis by (auto dest: in_ranges_stage)
    next
      case 6 then show ?thesis by (auto dest: in_allowed_stage)
    next
      case 7 then show ?thesis by (auto dest: in_emails_stage)
    qed
  qed
  from A B show ?thesis by blast
qed

theorem no_duplicate_check_without_present_key_witness:
  "filter (\<lambda>x. issue x = MissingKeyColumn)
     (fst (validate_dataframe example_pd
        \<lparr>columns = [''a''], rows = [[IntV 1], [IntV 1]]\<rparr>
        (empty_config\<lparr>unique_key_cols := Some [''id'', ''k'']\<rparr>))) =
   [\<lparr>row_index = None, column = Some ''id'', issue = MissingKeyColumn, issue_value = VNone\<rparr>,
    \<lparr>row_index = None, column = Some ''k'', issue = MissingKeyColumn, issue_value = VNone\<rparr>] \<and>
   validate_issues example_pd \<lparr>columns = [''a''], rows = [[IntV 1], [IntV 1]]\<rparr>
        (empty_config\<lparr>unique_key_cols := Some [''id'', ''k'']\<rparr>) =
   [\<lparr>row_index = None, column = Some ''id'', issue = MissingKeyColumn, issue_value = VNone\<rparr>,
    \<lparr>row_index = None, column = Some ''k'', issue = MissingKeyColumn, issue_value = VNone\<rparr>]"
proof -
  let ?df = "\<lparr>columns = [''a''], rows = [[IntV 1], [IntV 1]]\<rparr>"
  let ?cfg = "empty_config\<lparr>unique_key_cols := Some [''id'', ''k'']\<rparr>"
  have h1: "unique_key_cols ?cfg = Some [''id'', ''k'']" by simp
  have h2: "[''id'', ''k''] \<noteq> []" by simp
  have h3: "set [''id'', ''k''] \<inter> set (columns ?df) = {}" by simp
  have "validate_issues example_pd ?df ?cfg =
   [\<lparr>row_index = None, column = Some ''id'', issue = MissingKeyColumn, issue_value = VNone\<rparr>,
    \<lparr>row_index = None, column = Some ''k'', issue = MissingKeyColumn, issue_value = VNone\<rparr>]"
    by (simp add: check_defs)
  with no_duplicate_check_without_present_key [OF h1 h2 h3, of example_pd]
  show ?thesis by simp
qed









section \<open>The empty rule configuration\<close>

text \<open>
  Claim C2, as stated: for every non-empty dataset, a run with the empty rule configuration
  returns an empty issue list and \<open>total_issues = 0\<close>. It fails on a dataset with two equal
  rows: with no key columns the whole-row duplicate check of lines 56-59 runs and flags both.
\<close>

theorem empty_config_flags_duplicate_rows:
  "validate_dataframe example_pd \<lparr>columns = [''a''], rows = [[IntV 1], [IntV 1]]\<rparr> empty_config =
     ([\<lparr>row_index = Some 0, column = None, issue = DuplicateRow, issue_value = VNone\<rparr>,
       \<lparr>row_index = Some 1, column = None, issue = DuplicateRow, issue_value = VNone\<rparr>],
      \<lparr>summary_rows = 2, summary_cols = 1, total_issues = 2,
        issue_types = value_counts [DuplicateRow, DuplicateRow]\<rparr>)"
  by (simp add: check_defs)

text \<open>
  Claim C2, amended: for every non-empty dataset (at least one row and one column) in which
  no two rows are equal in every column, a run with the empty rule configuration (no required columns, no expected types,
  no ranges, no allowed values, no unique key columns, no email columns) returns an empty
  issue list and a summary with \<open>total_issues = 0\<close>.
\<close>

theorem empty_config_no_issues:
  assumes "rows df \<noteq> []" and "columns df \<noteq> []"
    and "distinct (map (row_key df (columns df)) (rows df))"
    and "required_cols cfg = []" and "expected_types cfg = []" and "ranges cfg = []"
    and "allowed_values cfg = []" and "\<not> truthy (unique_key_cols cfg)"
    and "\<not> truthy (email_cols cfg)"
  shows "fst (validate_dataframe pd df cfg) = [] \<and>
         total_issues (snd (validate_dataframe pd df cfg)) = 0"
proof -
  have nodup: "true_index (duplicated df (columns df)) = []"
  proof (cases "rows df = [] \<or> columns df = []")
    case True
    then show ?thesis by (simp add: true_index_duplicated)
  next
    case False
    have "\<not> (\<exists>j < length (rows df). j \<noteq> i \<and>
            row_key df (columns df) (rows df ! j) = row_key df (columns df) (rows df ! i))"
      if "i < length (rows df)" for i
    proof
      assume "\<exists>j < length (rows df). j \<noteq> i \<and>
            row_key df (columns df) (rows df ! j) = row_key df (columns df) (rows df ! i)"
      then obtain j where j: "j < length (rows df)" "j \<noteq> i"
        "row_key df (columns df) (rows df ! j) = row_key df (columns df) (rows df ! i)"
        by blast
      from j(1,3) that have
        "map (row_key df (columns df)) (rows df) ! j = map (row_key df (columns df)) (rows df) ! i"
        by simp
      with assms(3) j(1) that have "j = i"
        by (auto simp add: distinct_conv_nth simp del: nth_map)
      with j(2) show False by simp
    qed
    with False show ?thesis
      by (simp add: true_index_duplicated filter_empty_conv)
  qed
  have "validate_issues pd df cfg = []"
    using assms(4-9) nodup
    by (simp add: validate_issues_stages check_required_cols_nil check_missing_values_nil
          check_duplicates_nil check_types_nil check_ranges_nil check_allowed_values_nil
          check_emails_nil)
  then show ?thesis
    by (simp add: validate_dataframe_def make_summary_def Let_def)
qed

theorem empty_config_no_issues_witness:
  "validate_dataframe example_pd
     \<lparr>columns = [''a'', ''b''], rows = [[IntV 1, StrV ''x''], [IntV 1, Missing]]\<rparr> empty_config =
   ([], \<lparr>summary_rows = 2, summary_cols = 2, total_issues = 0, issue_types = Map.empty\<rparr>) \<and>
   fst (validate_dataframe example_pd
     \<lparr>columns = [''a'', ''b''], rows = [[IntV 1, StrV ''x''], [IntV 1, Missing]]\<rparr> empty_config) = []"
proof -
  let ?df = "\<lparr>columns = [''a'', ''b''], rows = [[IntV 1, StrV ''x''], [IntV 1, Missing]]\<rparr>"
  have h1: "rows ?df \<noteq> []" and h1': "columns ?df \<noteq> []" by simp_all
  have h2: "distinct (map (row_key ?df (columns ?df)) (rows ?df))"
    by (simp add: row_key_def row_get_def)
  have h3: "required_cols empty_config = []" and h4: "expected_types empty_config = []"
    and h5: "ranges empty_config = []" and h6: "allowed_values empty_config = []"
    and h7: "\<not> truthy (unique_key_cols empty_config)"
    and h8: "\<not> truthy (email_cols empty_config)"
    by (simp_all add: empty_config_def)
  have ev: "validate_dataframe example_pd ?df empty_config =
     ([], \<lparr>summary_rows = 2, summary_cols = 2, total_issues = 0, issue_types = Map.empty\<rparr>)"
    by (simp add: check_defs)
  from empty_config_no_issues [OF h1 h1' h2 h3 h4 h5 h6 h7 h8, of example_pd] ev
  show ?thesis by blast
qed

section \<open>The range check\<close>

text \<open>
  Claim C5. The range check never emits a below-min or above-max issue for a cell whose
  value fails numeric coercion, the missing marker included: only values that coerce to a
  number are compared against the bounds.
\<close>

theorem range_check_skips_uncoerced:
  assumes "at_cell df i c = Missing \<or> to_numeric pd (at_cell df i c) = None"
  shows "\<not> (\<exists>x \<in> set (fst (validate_dataframe pd df cfg)).
              row_index x = Some i \<and> column x = Some c \<and>
              (\<exists>m. issue x = ValueBelowMin m \<or> issue x = ValueAboveMax m))"
proof
  assume "\<exists>x \<in> set (fst (validate_dataframe pd df cfg)).
              row_index x = Some i \<and> column x = Some c \<and>
              (\<exists>m. issue x = ValueBelowMin m \<or> issue x = ValueAboveMax m)"
  then obtain x m where x: "x \<in> set (validate_issues pd df cfg)"
    and ri: "row_index x = Some i" and co: "column x = Some c"
    and k: "issue x = ValueBelowMin m \<or> issue x = ValueAboveMax m"
    by (auto simp: fst_validate_dataframe)
  from assms have none: "to_numeric pd (at_cell df i c) = None" by auto
  from x consider
      "x \<in> set (check_required_cols df cfg [])" | "x \<in> set (check_missing_values df cfg [])"
    | "x \<in> set (check_duplicates df cfg [])" | "x \<in> set (check_types pd df cfg [])"
    | "x \<in> set (check_ranges pd df cfg [])" | "x \<in> set (check_allowed_values df cfg [])"
    | "x \<in> set (check_emails pd df cfg [])"
    by (auto simp: in_validate_issues)
  then show False
  proof cases
    case 1 with k show False by (auto dest: in_required_stage)
  next
    case 2 with k show False by (auto dest: in_missing_stage)
  next
    case 3 with k show False by (auto dest: in_duplicates_stage)
  next
    case 4 with k show False by (auto dest: in_types_stage)
  next
    case 5
    from in_ranges_stage [OF this] ri co none show False by auto
  next
    case 6 with k show False by (auto dest: in_allowed_stage)
  next
    case 7 with k show False by (auto dest: in_emails_stage)
  qed
qed

theorem range_check_skips_uncoerced_witness:
  "to_numeric example_pd
     (at_cell \<lparr>columns = [''age''], rows = [[StrV ''abc''], [Missing], [IntV (- 5)]]\<rparr> 0 ''age'') = None \<and>
   \<not> (\<exists>x \<in> set (fst (validate_dataframe example_pd
          \<lparr>columns = [''age''], rows = [[StrV ''abc''], [Missing], [IntV (- 5)]]\<rparr>
          (empty_config\<lparr>ranges := [(''age'', (Some 0, Some 120))]\<rparr>))).
        row_index x = Some 0 \<and> column x = Some ''age'' \<and>
        (\<exists>m. issue x = ValueBelowMin m \<or> issue x = ValueAboveMax m)) \<and>
   validate_issues example_pd
     \<lparr>columns = [''age''], rows = [[StrV ''abc''], [Missing], [IntV (- 5)]]\<rparr>
     (empty_config\<lparr>ranges := [(''age'', (Some 0, Some 120))]\<rparr>) =
   [\<lparr>row_index = Some 2, column = Some ''age'', issue = ValueBelowMin 0,
      issue_value = VCell (IntV (- 5))\<rparr>]"
proof -
  let ?df = "\<lparr>columns = [''age''], rows = [[StrV ''abc''], [Missing], [IntV (- 5)]]\<rparr>"
  let ?cfg = "empty_config\<lparr>ranges := [(''age'', (Some 0, Some 120))]\<rparr>"
  have h: "to_numeric example_pd (at_cell ?df 0 ''age'') = None"
    by (simp add: at_cell_def row_get_def example_pd_def parse_digits_def)
  then have h': "at_cell ?df 0 ''age'' = Missing \<or> to_numeric example_pd (at_cell ?df 0 ''age'') = None"
    by (rule disjI2)
  have ev: "validate_issues example_pd ?df ?cfg =
    [\<lparr>row_index = Some 2, column = Some ''age'', issue = ValueBelowMin 0,
       issue_value = VCell (IntV (- 5))\<rparr>]"
    by (simp add: check_defs)
  from range_check_skips_uncoerced [OF h', of ?cfg] h ev show ?thesis by blast
qed




section \<open>Columns absent from the dataset\<close>

lemma length_filter_absent:
  assumes "c \<notin> S"
  shows "length (filter (\<lambda>c'. c' = c) (filter (\<lambda>c'. c' \<notin> S) xs)) = count_list xs c"
  using assms by (induction xs) auto

lemma join_label_absent:
  assumes "c \<notin> S" and "set ks \<subseteq> S" and "ks \<noteq> []" and "join sep ks = c"
  shows "2 \<le> length ks"
proof (cases ks)
  case Nil
  with assms(3) show ?thesis by simp
next
  case (Cons k ks')
  show ?thesis
  proof (cases ks')
    case Nil
    with Cons assms(4) have "c = k" by simp
    with Cons assms(1,2) show ?thesis by auto
  next
    case (Cons k' ks'')
    with \<open>ks = k # ks'\<close> show ?thesis by simp
  qed
qed

lemma absent_column_duplicates_stage:
  assumes "c \<notin> set (columns df)" and "x \<in> set (check_duplicates df cfg [])"
    and "column x = Some c"
  shows "(row_index x = None \<and> issue_value x = VNone \<and> issue x = MissingKeyColumn) \<or>
         (issue x = DuplicateKey \<and>
          c = join '','' (filter (\<lambda>c. c \<in> set (columns df)) (the (unique_key_cols cfg))) \<and>
          2 \<le> length (filter (\<lambda>c. c \<in> set (columns df)) (the (unique_key_cols cfg))))"
proof -
  let ?kc = "filter (\<lambda>c. c \<in> set (columns df)) (the (unique_key_cols cfg))"
  have sub: "set ?kc \<subseteq> set (columns df)" by auto
  from assms(2,3) consider
      "row_index x = None \<and> issue_value x = VNone \<and> issue x = MissingKeyColumn"
    | "issue x = DuplicateKey \<and> ?kc \<noteq> [] \<and> join '','' ?kc = c"
    by (auto simp: check_duplicates_nil Let_def split: if_splits)
  then show ?thesis
  proof cases
    case 1
    then show ?thesis by simp
  next
    case 2
    with join_label_absent [OF assms(1) sub, of "'',''"] show ?thesis by auto
  qed
qed

text \<open>
  Claim C7, as stated: for a column name absent from the dataset, the only issue
  mentioning it is the single dataset-level missing-column issue. It fails when the name is
  listed both as a required column and as a key column: each of the two checks reports it.
\<close>

theorem absent_column_reported_twice:
  "fst (validate_dataframe example_pd \<lparr>columns = [''a''], rows = [[IntV 1]]\<rparr>
     (empty_config\<lparr>required_cols := [''id''], unique_key_cols := Some [''id'']\<rparr>)) =
   [\<lparr>row_index = None, column = Some ''id'', issue = MissingRequiredColumn, issue_value = VNone\<rparr>,
    \<lparr>row_index = None, column = Some ''id'', issue = MissingKeyColumn, issue_value = VNone\<rparr>]"
  by (simp add: check_defs)

text \<open>
  Claim C7, amended: for every column name \<open>c\<close> absent from the dataset, every issue whose
  column field is \<open>c\<close> is a dataset-level issue (no row index, no value) of kind
  missing-required-column or missing-key-column, or else a duplicate-key issue whose label
  (the comma-joined names of two or more present key columns) spells \<open>c\<close>; no other
  row-level issue is emitted for \<open>c\<close>. There is one missing-required-column issue for each
  time \<open>c\<close> is listed in \<open>required_cols\<close>, and, in keyed mode, one missing-key-column issue
  for each time it is listed in \<open>unique_key_cols\<close>.
\<close>

theorem absent_column_only_dataset_level:
  assumes "c \<notin> set (columns df)"
  shows "(\<forall>x \<in> set (fst (validate_dataframe pd df cfg)). column x = Some c \<longrightarrow>
            (row_index x = None \<and> issue_value x = VNone \<and>
             (issue x = MissingRequiredColumn \<or> issue x = MissingKeyColumn)) \<or>
            (issue x = DuplicateKey \<and>
             c = join '','' (filter (\<lambda>c. c \<in> set (columns df)) (the (unique_key_cols cfg))) \<and>
             2 \<le> length (filter (\<lambda>c. c \<in> set (columns df)) (the (unique_key_cols cfg))))) \<and>
         length (filter (\<lambda>x. column x = Some c \<and> issue x = MissingRequiredColumn)
                   (fst (validate_dataframe pd df cfg))) = count_list (required_cols cfg) c \<and>
         length (filter (\<lambda>x. column x = Some c \<and> issue x = MissingKeyColumn)
                   (fst (validate_dataframe pd df cfg))) =
           (if truthy (unique_key_cols cfg) then count_list (the (unique_key_cols cfg)) c else 0)"
proof (intro conjI ballI impI)
  fix x
  assume x: "x \<in> set (fst (validate_dataframe pd df cfg))" and co: "column x = Some c"
  from x consider
      "x \<in> set (check_required_cols df cfg [])" | "x \<in> set (check_missing_values df cfg [])"
    | "x \<in> set (check_duplicates df cfg [])" | "x \<in> set (check_types pd df cfg [])"
    | "x \<in> set (check_ranges pd df cfg [])" | "x \<in> set (check_allowed_values df cfg [])"
    | "x \<in> set (check_emails pd df cfg [])"
    by (auto simp: fst_validate_dataframe in_validate_issues)
  then show "(row_index x = None \<and> issue_value x = VNone \<and>
             (issue x = MissingRequiredColumn \<or> issue x = MissingKeyColumn)) \<or>
            (issue x = DuplicateKey \<and>
             c = join '','' (filter (\<lambda>c. c \<in> set (columns df)) (the (unique_key_cols cfg))) \<and>
             2 \<le> length (filter (\<lambda>c. c \<in> set (columns df)) (the (unique_key_cols cfg))))"
  proof cases
    case 1 then show ?thesis by (auto dest: in_required_stage)
  next
    case 2 with co assms show ?thesis by (auto dest: in_missing_stage)
  next
    case 3
    from absent_column_duplicates_stage [OF assms this co] show ?thesis by blast
  next
    case 4 with co assms show ?thesis by (auto dest: in_types_stage)
  next
    case 5 with co assms show ?thesis by (auto dest: in_ranges_stage)
  next
    case 6 with co assms show ?thesis by (auto dest: in_allowed_stage)
  next
    case 7 with co assms show ?thesis by (auto dest: in_emails_stage)
  qed
next
  let ?P = "\<lambda>x. column x = Some c \<and> issue x = MissingRequiredColumn"
  have "filter ?P (check_missing_values df cfg []) = []"
    by (rule filter_nil_stage) (auto dest: in_missing_stage)
  moreover have "filter ?P (check_duplicates df cfg []) = []"
    by (rule filter_nil_stage) (auto dest: in_duplicates_stage)
  moreover have "filter ?P (check_types pd df cfg []) = []"
    by (rule filter_nil_stage) (auto dest: in_types_stage)
  moreover have "filter ?P (check_ranges pd df cfg []) = []"
    by (rule filter_nil_stage) (auto dest: in_ranges_stage)
  moreover have "filter ?P (check_allowed_values df cfg []) = []"
    by (rule filter_nil_stage) (auto dest: in_allowed_stage)
  moreover have "filter ?P (check_emails pd df cfg []) = []"
    by (rule filter_nil_stage) (auto dest: in_emails_stage)
  moreover have "length (filter ?P (check_required_cols df cfg [])) = count_list (required_cols cfg) c"
    using length_filter_absent [OF assms, of "required_cols cfg"]
    by (simp add: check_required_cols_nil filter_map comp_def)
  ultimately show "length (filter ?P (fst (validate_dataframe pd df cfg))) =
      count_list (required_cols cfg) c"
    by (simp add: fst_validate_dataframe filter_validate_issues)
next
  let ?P = "\<lambda>x. column x = Some c \<and> issue x = MissingKeyColumn"
  have "filter ?P (check_missing_values df cfg []) = []"
    by (rule filter_nil_stage) (auto dest: in_missing_stage)
  moreover have "filter ?P (check_required_cols df cfg []) = []"
    by (rule filter_nil_stage) (auto dest: in_required_stage)
  moreover have "filter ?P (check_types pd df cfg []) = []"
    by (rule filter_nil_stage) (auto dest: in_types_stage)
  moreover have "filter ?P (check_ranges pd df cfg []) = []"
    by (rule filter_nil_stage) (auto dest: in_ranges_stage)
  moreover have "filter ?P (check_allowed_values df cfg []) = []"
    by (rule filter_nil_stage) (auto dest: in_allowed_stage)
  moreover have "filter ?P (check_emails pd df cfg []) = []"
    by (rule filter_nil_stage) (auto dest: in_emails_stage)
  moreover have "length (filter ?P (check_duplicates df cfg [])) =
      (if truthy (unique_key_cols cfg) then count_list (the (unique_key_cols cfg)) c else 0)"
    using length_filter_absent [OF assms, of "the (unique_key_cols cfg)"]
    by (simp add: check_duplicates_nil Let_def filter_map comp_def)
  ultimately show "length (filter ?P (fst (validate_dataframe pd df cfg))) =
      (if truthy (unique_key_cols cfg) then count_list (the (unique_key_cols cfg)) c else 0)"
    by (simp add: fst_validate_dataframe filter_validate_issues)
qed

theorem absent_column_only_dataset_level_witness:
  "''id'' \<notin> set (columns \<lparr>columns = [''a''], rows = [[IntV 1]]\<rparr>) \<and>
   length (filter (\<lambda>x. column x = Some ''id'' \<and> issue x = MissingRequiredColumn)
     (fst (validate_dataframe example_pd \<lparr>columns = [''a''], rows = [[IntV 1]]\<rparr>
        (empty_config\<lparr>required_cols := [''id''], unique_key_cols := Some [''id'']\<rparr>)))) = 1 \<and>
   length (filter (\<lambda>x. column x = Some ''id'' \<and> issue x = MissingKeyColumn)
     (fst (validate_dataframe example_pd \<lparr>columns = [''a''], rows = [[IntV 1]]\<rparr>
        (empty_config\<lparr>required_cols := [''id''], unique_key_cols := Some [''id'']\<rparr>)))) = 1"
proof -
  let ?df = "\<lparr>columns = [''a''], rows = [[IntV 1]]\<rparr>"
  let ?cfg = "empty_config\<lparr>required_cols := [''id''], unique_key_cols := Some [''id'']\<rparr>"
  have h: "''id'' \<notin> set (columns ?df)" by simp
  from absent_column_only_dataset_level [OF h, of example_pd ?cfg] h
  show ?thesis by simp
qed

section \<open>Unknown expected types\<close>








section \<open>The export of the issue list\<close>

lemma set_dict_keys: "set (dict_keys xs) = set xs"
  by (induction xs) auto

lemma dict_keys_append:
  "dict_keys (xs @ ys) = dict_keys xs @ filter (\<lambda>y. y \<notin> set xs) (dict_keys ys)"
proof (induction xs)
  case Nil
  show ?case by simp
next
  case (Cons x xs)
  have "filter (\<lambda>k'. k' \<noteq> x) (filter (\<lambda>y. y \<notin> set xs) (dict_keys ys)) =
        filter (\<lambda>y. y \<notin> set (x # xs)) (dict_keys ys)"
    by (simp add: conj_commute)
  with Cons show ?case by simp
qed

lemma dict_keys_first_record:
  assumes "dict_keys ks = ks" and "set ys \<subseteq> set ks"
  shows "dict_keys (ks @ ys) = ks"
proof -
  from assms(2) have "filter (\<lambda>y. y \<notin> set ks) (dict_keys ys) = []"
    by (auto simp: filter_empty_conv set_dict_keys)
  with assms(1) show ?thesis by (simp add: dict_keys_append)
qed

lemma keys_of_issue_records:
  "set (concat (map (map fst) (map issue_record issues))) \<subseteq>
     set [''row_index'', ''column'', ''issue'', ''value'']"
  by (induction issues) (auto simp: issue_record_def)

text \<open>
  Claim C9, as stated: for every issue list, \<^verbatim>\<open>issues_to_df\<close> returns a table with exactly the
  four columns \<open>row_index, column, issue, value\<close>. It fails on the empty list:
  \<^verbatim>\<open>pd.DataFrame([])\<close> has no column. The program calls \<^verbatim>\<open>issues_to_df\<close> under
  \<^verbatim>\<open>if issues:\<close> only (line 221).
\<close>

theorem issues_to_df_empty_has_no_column:
  "issues_to_df [] = \<lparr>table_columns = [], table_rows = []\<rparr>"
  by (simp add: issues_to_df_def DataFrame_of_records_def)

text \<open>
  Claim C9, amended: for every non-empty issue list, \<^verbatim>\<open>issues_to_df\<close> returns a table with
  exactly four columns in the order \<open>row_index, column, issue, value\<close>, with one row per
  issue in insertion order, each row holding the four fields of its issue unchanged; so the
  value of a composite-key duplicate issue stays a mapping from key column to value.
\<close>

theorem issues_to_df_four_columns:
  assumes "issues \<noteq> []"
  shows "table_columns (issues_to_df issues) = [''row_index'', ''column'', ''issue'', ''value''] \<and>
         table_rows (issues_to_df issues) =
           map (\<lambda>i. [Some (ERowIndex (row_index i)), Some (EColumn (column i)),
                     Some (EIssue (issue i)), Some (EValue (issue_value i))]) issues"
proof -
  let ?K = "[''row_index'', ''column'', ''issue'', ''value'']"
  from assms obtain i rest where issues: "issues = i # rest" by (cases issues) auto
  have "concat (map (map fst) (map issue_record issues)) =
        ?K @ concat (map (map fst) (map issue_record rest))"
    by (simp add: issues issue_record_def)
  moreover have "dict_keys ?K = ?K" by simp
  ultimately have cols: "dict_keys (concat (map (map fst) (map issue_record issues))) = ?K"
    using dict_keys_first_record [OF _ keys_of_issue_records [of rest]] by simp
  show ?thesis
    unfolding issues_to_df_def DataFrame_of_records_def Let_def cols
    by (simp add: issue_record_def comp_def)
qed

theorem issues_to_df_four_columns_witness:
  "issues_to_df
     [\<lparr>row_index = None, column = Some ''k'', issue = MissingKeyColumn, issue_value = VNone\<rparr>,
      \<lparr>row_index = Some 0, column = Some ''a,b'', issue = DuplicateKey,
        issue_value = VDict [(''a'', IntV 1), (''b'', Missing)]\<rparr>] =
   \<lparr>table_columns = [''row_index'', ''column'', ''issue'', ''value''],
    table_rows =
      [[Some (ERowIndex None), Some (EColumn (Some ''k'')), Some (EIssue MissingKeyColumn),
        Some (EValue VNone)],
       [Some (ERowIndex (Some 0)), Some (EColumn (Some ''a,b'')), Some (EIssue DuplicateKey),
        Some (EValue (VDict [(''a'', IntV 1), (''b'', Missing)]))]]\<rparr>"
proof -
  let ?is = "[\<lparr>row_index = None, column = Some ''k'', issue = MissingKeyColumn, issue_value = VNone\<rparr>,
      \<lparr>row_index = Some 0, column = Some ''a,b'', issue = DuplicateKey,
        issue_value = VDict [(''a'', IntV 1), (''b'', Missing)]\<rparr>]"
  have h: "?is \<noteq> []" by simp
  from issues_to_df_four_columns [OF h] show ?thesis
    by (cases "issues_to_df ?is") simp
qed

end
